theory Spec2Isabelle
  imports Complex_Main
begin

section \<open>Python values, errors and sequences\<close>

text \<open>
  The two modules under verification are \<^verbatim>\<open>geomdl/control_points.py\<close> and
  \<^verbatim>\<open>geomdl/utilities.py\<close>. Every exception the code can raise is a value of
  \<open>error\<close>; a function that can raise returns \<open>error + 'a\<close> with \<open>Inl\<close> for the
  exception. Python integers are \<open>int\<close>. A finite Python float is the real number
  it denotes; the code under study stores and truncates floats but the modelled
  functions never add or multiply them.
\<close>

datatype error =
  TypeError | ValueError | IndexError | KeyError | GeomdlError | ZeroDivisionError

text \<open>Sequencing of two computations that may raise: the first exception wins.\<close>

definition bnd :: "error + 'a \<Rightarrow> ('a \<Rightarrow> error + 'b) \<Rightarrow> error + 'b" where
  "bnd r f = (case r of Inl e \<Rightarrow> Inl e | Inr x \<Rightarrow> f x)"

text \<open>A \<^verbatim>\<open>for\<close> loop that appends one computed element per iteration.\<close>

fun traverse :: "('a \<Rightarrow> error + 'b) \<Rightarrow> 'a list \<Rightarrow> error + 'b list" where
  "traverse f [] = Inr []"
| "traverse f (x # xs) =
     (case f x of
        Inl e \<Rightarrow> Inl e
      | Inr y \<Rightarrow> (case traverse f xs of Inl e \<Rightarrow> Inl e | Inr ys \<Rightarrow> Inr (y # ys)))"

text \<open>
  Python list indexing \<^verbatim>\<open>xs[i]\<close>: a negative index counts from the end, and an
  index outside \<open>-len .. len-1\<close> raises \<^verbatim>\<open>IndexError\<close>. \<open>py_index\<close> is the
  position the index resolves to.
\<close>

definition py_index :: "'a list \<Rightarrow> int \<Rightarrow> nat option" where
  "py_index xs i =
     (if 0 \<le> i \<and> i < int (length xs) then Some (nat i)
      else if i < 0 \<and> 0 \<le> int (length xs) + i then Some (nat (int (length xs) + i))
      else None)"

definition py_getitem :: "'a list \<Rightarrow> int \<Rightarrow> error + 'a" where
  "py_getitem xs i =
     (case py_index xs i of None \<Rightarrow> Inl IndexError | Some j \<Rightarrow> Inr (xs ! j))"

definition py_setitem :: "'a list \<Rightarrow> int \<Rightarrow> 'a \<Rightarrow> error + 'a list" where
  "py_setitem xs i v =
     (case py_index xs i of None \<Rightarrow> Inl IndexError | Some j \<Rightarrow> Inr (xs[j := v]))"

text \<open>\<^verbatim>\<open>range(n)\<close>: the integers \<open>0 .. n-1\<close>, empty when \<open>n \<le> 0\<close>.\<close>

definition py_range :: "int \<Rightarrow> int list" where
  "py_range n = [0 .. n - 1]"

section \<open>utilities.py\<close>

subsection \<open>make_zigzag\<close>

text \<open>
  The \<^verbatim>\<open>while idx < points_size\<close> loop of \<^verbatim>\<open>make_zigzag\<close>, with its four loop
  variables. \<^verbatim>\<open>idx % num_cols\<close> raises \<^verbatim>\<open>ZeroDivisionError\<close> for a zero
  \<^verbatim>\<open>num_cols\<close>; Python's \<^verbatim>\<open>%\<close> on integers is the floored modulus, as \<open>mod\<close> on
  \<open>int\<close> is.
\<close>

function zigzag_loop ::
  "'a list \<Rightarrow> int \<Rightarrow> int \<Rightarrow> int \<Rightarrow> bool \<Rightarrow> 'a list \<Rightarrow> error + 'a list" where
  "zigzag_loop points num_cols idx rev_idx forward new_points =
     (if idx < int (length points) then
        (case py_getitem points (if forward then idx else rev_idx) of
           Inl e \<Rightarrow> Inl e
         | Inr p \<Rightarrow>
             if num_cols = 0 then Inl ZeroDivisionError
             else if (idx + 1) mod num_cols = 0
               then zigzag_loop points num_cols (idx + 1) (idx + 1 + num_cols - 1)
                      (\<not> forward) (new_points @ [p])
               else zigzag_loop points num_cols (idx + 1)
                      (if forward then rev_idx else rev_idx - 1) forward (new_points @ [p]))
      else Inr new_points)"
  by pat_completeness auto
termination
  by (relation "measure (\<lambda>(points, num_cols, idx, rev_idx, forward, new_points).
        nat (int (length points) - idx))") auto

definition make_zigzag :: "'a list \<Rightarrow> int \<Rightarrow> error + 'a list" where
  "make_zigzag points num_cols = zigzag_loop points num_cols 0 (- 1) True []"

text \<open>
  The specification's wording of the same reordering: cut the flat sequence into rows of
  \<open>c\<close> elements and walk them in order, the first row forwards, the next backwards, and
  so on (a boustrophedon path).
\<close>

fun boustrophedon :: "nat \<Rightarrow> bool \<Rightarrow> 'a list \<Rightarrow> 'a list" where
  "boustrophedon c forward xs =
     (if c = 0 \<or> xs = [] then []
      else (if forward then take c xs else rev (take c xs))
           @ boustrophedon c (\<not> forward) (drop c xs))"

subsection \<open>make_quadtree\<close>

text \<open>
  \<^verbatim>\<open>linalg.vector_generate\<close> and \<^verbatim>\<open>linalg.point_translate\<close> belong to a module that
  is not part of the two files; they are parameters \<open>vg\<close> and \<open>pt\<close> of the model, and
  may raise.
\<close>

definition get2d :: "'p list list \<Rightarrow> int \<Rightarrow> int \<Rightarrow> error + 'p" where
  "get2d points2d a b = bnd (py_getitem points2d a) (\<lambda>row. py_getitem row b)"

text \<open>
  The three-line extrapolation block: \<^verbatim>\<open>vector_generate(points2d[a][b], points2d[u][v])\<close>
  followed by \<^verbatim>\<open>point_translate(points2d[u][v], extrapolated_edge)\<close>.
\<close>

definition extrapolated ::
  "('p \<Rightarrow> 'p \<Rightarrow> error + 'w) \<Rightarrow> ('p \<Rightarrow> 'w \<Rightarrow> error + 'p) \<Rightarrow> 'p list list
     \<Rightarrow> int \<Rightarrow> int \<Rightarrow> int \<Rightarrow> int \<Rightarrow> error + 'p" where
  "extrapolated vg pt points2d a b u v =
     bnd (get2d points2d a b) (\<lambda>p_from.
     bnd (get2d points2d u v) (\<lambda>p_to.
     bnd (vg p_from p_to) (\<lambda>extrapolated_edge.
     bnd (get2d points2d u v) (\<lambda>p. pt p extrapolated_edge))))"

text \<open>The conversion of the flat list into \<^verbatim>\<open>points2d\<close>: one row per \<open>j\<close>.\<close>

definition quadtree_points2d :: "'p list \<Rightarrow> int \<Rightarrow> int \<Rightarrow> error + 'p list list" where
  "quadtree_points2d points size_u size_v =
     traverse (\<lambda>j. traverse (\<lambda>i. py_getitem points (i + (j * size_u))) (py_range size_u))
       (py_range size_v)"

text \<open>The body of the inner loop: the tuple appended to \<^verbatim>\<open>qtree\<close> for one \<open>(u, v)\<close>.\<close>

definition quadtree_cell ::
  "('p \<Rightarrow> 'p \<Rightarrow> error + 'w) \<Rightarrow> ('p \<Rightarrow> 'w \<Rightarrow> error + 'p) \<Rightarrow> bool \<Rightarrow> 'p list list
     \<Rightarrow> int \<Rightarrow> int \<Rightarrow> int \<Rightarrow> int \<Rightarrow> error + 'p list" where
  "quadtree_cell vg pt extrapolate points2d size_u size_v u v =
     bnd (get2d points2d u v) (\<lambda>self.
     bnd (if u + 1 < size_u then bnd (get2d points2d (u + 1) v) (\<lambda>p. Inr [p])
          else if extrapolate
            then bnd (extrapolated vg pt points2d (u - 1) v u v) (\<lambda>p. Inr [p])
          else Inr []) (\<lambda>east.
     bnd (if v + 1 < size_v then bnd (get2d points2d u (v + 1)) (\<lambda>p. Inr [p])
          else if extrapolate
            then bnd (extrapolated vg pt points2d u (v - 1) u v) (\<lambda>p. Inr [p])
          else Inr []) (\<lambda>north.
     bnd (if u - 1 \<ge> 0 then bnd (get2d points2d (u - 1) v) (\<lambda>p. Inr [p])
          else if extrapolate
            then bnd (extrapolated vg pt points2d (u + 1) v u v) (\<lambda>p. Inr [p])
          else Inr []) (\<lambda>west.
     bnd (if v - 1 \<ge> 0 then bnd (get2d points2d u (v - 1)) (\<lambda>p. Inr [p])
          else if extrapolate
            then bnd (extrapolated vg pt points2d u (v + 1) u v) (\<lambda>p. Inr [p])
          else Inr []) (\<lambda>south.
     Inr ([self] @ east @ north @ west @ south))))))"

definition make_quadtree ::
  "('p \<Rightarrow> 'p \<Rightarrow> error + 'w) \<Rightarrow> ('p \<Rightarrow> 'w \<Rightarrow> error + 'p) \<Rightarrow> 'p list \<Rightarrow> int \<Rightarrow> int
     \<Rightarrow> bool \<Rightarrow> error + 'p list list" where
  "make_quadtree vg pt points size_u size_v extrapolate =
     bnd (quadtree_points2d points size_u size_v) (\<lambda>points2d.
     bnd (traverse (\<lambda>v. traverse (\<lambda>u.
            quadtree_cell vg pt extrapolate points2d size_u size_v u v) (py_range size_u))
          (py_range size_v)) (\<lambda>rows. Inr (concat rows)))"

section \<open>control_points.py\<close>

subsection \<open>Index mapper and default storage backend\<close>

text \<open>
  \<^verbatim>\<open>default_find_index(pts_size, *args)\<close>: the loop over \<^verbatim>\<open>enumerate(args)\<close> with
  the running position \<open>i\<close> and the accumulator \<open>idx\<close>. The inner loop multiplies the
  entries of the slice \<^verbatim>\<open>pts_size[:i]\<close>; a slice never raises.
\<close>

fun find_index_loop :: "int list \<Rightarrow> nat \<Rightarrow> int list \<Rightarrow> int \<Rightarrow> int" where
  "find_index_loop pts_size i [] idx = idx"
| "find_index_loop pts_size i (arg # args) idx =
     find_index_loop pts_size (Suc i) args
       (idx + arg * (if i > 0 then foldl (\<lambda>mul_res j. mul_res * j) 1 (take i pts_size)
                     else 1))"

definition default_find_index :: "int list \<Rightarrow> int list \<Rightarrow> int" where
  "default_find_index pts_size args = find_index_loop pts_size 0 args 0"

text \<open>
  The coordinate tuples of a shape \<open>(s0, ..., sk)\<close>: one entry per parametric dimension,
  the \<open>i\<close>-th within \<open>0 .. si - 1\<close>.
\<close>

definition coordinates :: "int list \<Rightarrow> int list set" where
  "coordinates sz = {cs. list_all2 (\<lambda>c s. 0 \<le> c \<and> c < s) cs sz}"

text \<open>
  A stored control point is a tuple of floats; the empty tuple \<^verbatim>\<open>()\<close> is the
  placeholder of a slot that holds no point yet. An attached datum is a float, or a list
  of floats for an attribute of arity above one.
\<close>

type_synonym point = "real list"

datatype pdatum = Scalar real | Vector "real list"

type_synonym points_data = "string \<rightharpoonup> pdatum list"

text \<open>
  \<^verbatim>\<open>default_ctrlpts_init(num_ctrlpts, **kwargs)\<close>: the keyword arguments map an
  attribute name to its arity. \<^verbatim>\<open>range\<close> of a non-positive number is empty.
\<close>

definition default_ctrlpts_init :: "int \<Rightarrow> (string \<rightharpoonup> int) \<Rightarrow> point list \<times> points_data" where
  "default_ctrlpts_init num_ctrlpts kwargs =
     (replicate (nat num_ctrlpts) [],
      (\<lambda>k. case kwargs k of
             None \<Rightarrow> None
           | Some v \<Rightarrow>
               Some (if v > 1
                     then replicate (nat num_ctrlpts) (Vector (replicate (nat v) 0))
                     else replicate (nat num_ctrlpts) (Scalar 0))))"

text \<open>
  \<^verbatim>\<open>default_ctrlpt_set(pts_arr, idx, cpt)\<close> assigns in place; the model returns the
  updated container. \<^verbatim>\<open>GeomdlFloat\<close> leaves a float as it is.
\<close>

definition default_ctrlpt_set :: "point list \<Rightarrow> int \<Rightarrow> real list \<Rightarrow> error + point list" where
  "default_ctrlpt_set pts_arr idx cpt = py_setitem pts_arr idx cpt"

text \<open>
  An object offered as a control point is a sequence of floats or something that is not
  a sequence (\<^verbatim>\<open>isinstance(cpt, GeomdlTypeSequence)\<close> decides); an object offered
  as the whole point list likewise.
\<close>

datatype cpt_in = NotSeq | Seq "real list"

datatype pts_in = NotSeqs | Seqs "cpt_in list"

text \<open>
  \<^verbatim>\<open>default_ctrlpts_set(pts_in, dim, pts_out)\<close>: the loop over \<^verbatim>\<open>enumerate(pts_in)\<close>
  (\<open>dimn\<close> is the parameter \<^verbatim>\<open>dim\<close>).
  It writes into \<^verbatim>\<open>pts_out\<close> in place, so the elements written before an exception
  stay written: the container is returned beside the outcome.
\<close>

fun ctrlpts_set_loop ::
  "cpt_in list \<Rightarrow> int \<Rightarrow> int \<Rightarrow> point list \<Rightarrow> (error + unit) \<times> point list" where
  "ctrlpts_set_loop [] idx dimn pts_out = (Inr (), pts_out)"
| "ctrlpts_set_loop (NotSeq # rest) idx dimn pts_out = (Inl GeomdlError, pts_out)"
| "ctrlpts_set_loop (Seq cpt # rest) idx dimn pts_out =
     (if int (length cpt) \<noteq> dimn then (Inl GeomdlError, pts_out)
      else (case default_ctrlpt_set pts_out idx cpt of
              Inl e \<Rightarrow> (Inl e, pts_out)
            | Inr pts_out' \<Rightarrow> ctrlpts_set_loop rest (idx + 1) dimn pts_out'))"

definition default_ctrlpts_set ::
  "cpt_in list \<Rightarrow> int \<Rightarrow> point list \<Rightarrow> (error + unit) \<times> point list" where
  "default_ctrlpts_set pts_in dimn pts_out = ctrlpts_set_loop pts_in 0 dimn pts_out"

subsection \<open>The manager's state\<close>

text \<open>
  The part of the object that the parent class \<^verbatim>\<open>GeomdlBase\<close> owns: the spatial
  dimension and the option store. \<^verbatim>\<open>GeomdlBase\<close> is not part of the two files, so
  the object its constructor leaves behind and its \<^verbatim>\<open>reset\<close> method are parameters
  of the operations below.
\<close>

record GeomdlBase =
  dimension :: int
  opt :: "string \<rightharpoonup> point list"

text \<open>The four configuration entries \<^verbatim>\<open>self._cfg['func_...']\<close>.\<close>

record config =
  func_pts_init :: "int \<Rightarrow> (string \<rightharpoonup> int) \<Rightarrow> point list \<times> points_data"
  func_pts_set :: "cpt_in list \<Rightarrow> int \<Rightarrow> point list \<Rightarrow> (error + unit) \<times> point list"
  func_pt_set :: "point list \<Rightarrow> int \<Rightarrow> real list \<Rightarrow> error + point list"
  func_find_index :: "int list \<Rightarrow> int list \<Rightarrow> int"

definition default_config :: config where
  "default_config =
     \<lparr> func_pts_init = default_ctrlpts_init, func_pts_set = default_ctrlpts_set,
       func_pt_set = default_ctrlpt_set, func_find_index = default_find_index \<rparr>"

text \<open>
  The slots \<^verbatim>\<open>_size\<close>, \<^verbatim>\<open>_count\<close>, \<^verbatim>\<open>_pts\<close>, \<^verbatim>\<open>_ptsd\<close> and \<^verbatim>\<open>_is_changed\<close>
  of \<^verbatim>\<open>CPManager\<close>, beside the inherited part and the configuration.
\<close>

record CPManager =
  base :: GeomdlBase
  cfg :: config
  m_size :: "int list"
  m_count :: int
  m_pts :: "point list"
  m_ptsd :: points_data
  m_is_changed :: bool

text \<open>
  A method mutates the object and may raise: it returns its outcome beside the object as
  the call leaves it, also when it raises.
\<close>

type_synonym 'a outcome = "(error + 'a) \<times> CPManager"

subsection \<open>Construction\<close>

text \<open>
  A size argument is an integer or a finite float; \<^verbatim>\<open>int(arg)\<close> leaves an integer
  as it is and truncates a float toward zero.
\<close>

datatype size_arg = IntArg int | FloatArg real

fun py_int :: "size_arg \<Rightarrow> int" where
  "py_int (IntArg n) = n"
| "py_int (FloatArg x) = (if 0 \<le> x then \<lfloor>x\<rfloor> else \<lceil>x\<rceil>)"

text \<open>
  \<^verbatim>\<open>reduce(lambda x, y: x * y, self.size)\<close> has no initial value: it raises
  \<^verbatim>\<open>TypeError\<close> on the empty tuple.
\<close>

fun py_reduce_mul :: "int list \<Rightarrow> error + int" where
  "py_reduce_mul [] = Inl TypeError"
| "py_reduce_mul (x # xs) = Inr (foldl (\<lambda>x y. x * y) x xs)"

text \<open>
  \<^verbatim>\<open>CPManager.__init__(*args, **kwargs)\<close>. \<open>b\<close> is the object as
  \<^verbatim>\<open>GeomdlBase.__init__\<close> leaves it, \<open>c\<close> the configuration after the four
  \<^verbatim>\<open>kwargs.pop\<close>, \<open>kwargs\<close> the keyword arguments that remain (attribute arities).
\<close>

definition CPManager_init ::
  "GeomdlBase \<Rightarrow> config \<Rightarrow> size_arg list \<Rightarrow> (string \<rightharpoonup> int) \<Rightarrow> error + CPManager" where
  "CPManager_init b c args kwargs =
     bnd (py_reduce_mul (map py_int args)) (\<lambda>cnt.
       case func_pts_init c cnt kwargs of
         (pts0, ptsd0) \<Rightarrow>
           Inr \<lparr> base = b, cfg = c, m_size = map py_int args, m_count = cnt,
                 m_pts = pts0, m_ptsd = ptsd0, m_is_changed = False \<rparr>)"

subsection \<open>Reading and writing points\<close>

text \<open>An index is an integer, a tuple of integers, or an object of another type.\<close>

datatype key = IntKey int | TupleKey "int list" | OtherKey

definition getitem :: "key \<Rightarrow> CPManager \<Rightarrow> error + point" where
  "getitem item m =
     (case item of
        IntKey i \<Rightarrow> py_getitem (m_pts m) i
      | TupleKey t \<Rightarrow>
          if length t \<noteq> length (m_size m) then Inl ValueError
          else py_getitem (m_pts m) (func_find_index (cfg m) (m_size m) t)
      | OtherKey \<Rightarrow> Inl TypeError)"

definition pt :: "int list \<Rightarrow> CPManager \<Rightarrow> error + point" where
  "pt args m = getitem (TupleKey args) m"

text \<open>
  The first two steps of \<^verbatim>\<open>__setitem__\<close> after the type check:
  \<^verbatim>\<open>if self.dimension < 1: self._dimension = len(value)\<close>.
\<close>

definition infer_dimension :: "int \<Rightarrow> CPManager \<Rightarrow> CPManager" where
  "infer_dimension n m =
     (if dimension (base m) < 1 then m\<lparr>base := (base m)\<lparr>dimension := n\<rparr>\<rparr> else m)"

text \<open>
  A call of \<^verbatim>\<open>self._cfg['func_pt_set'](self._pts, idx, value)\<close> followed by
  \<^verbatim>\<open>self._is_changed = True\<close>.
\<close>

definition store_point :: "int \<Rightarrow> real list \<Rightarrow> CPManager \<Rightarrow> unit outcome" where
  "store_point idx v m =
     (case func_pt_set (cfg m) (m_pts m) idx v of
        Inl e \<Rightarrow> (Inl e, m)
      | Inr pts' \<Rightarrow> (Inr (), m\<lparr>m_pts := pts', m_is_changed := True\<rparr>))"

definition setitem :: "key \<Rightarrow> cpt_in \<Rightarrow> CPManager \<Rightarrow> unit outcome" where
  "setitem k val m =
     (case val of
        NotSeq \<Rightarrow> (Inl TypeError, m)
      | Seq v \<Rightarrow>
          (let m1 = infer_dimension (int (length v)) m in
           if int (length v) \<noteq> dimension (base m1) then (Inl ValueError, m1)
           else (case k of
                   IntKey i \<Rightarrow> store_point i v m1
                 | TupleKey t \<Rightarrow>
                     if length t \<noteq> length (m_size m1) then (Inl ValueError, m1)
                     else store_point (func_find_index (cfg m1) (m_size m1) t) v m1
                 | OtherKey \<Rightarrow> (Inl TypeError, m1))))"

definition set_pt :: "cpt_in \<Rightarrow> int list \<Rightarrow> CPManager \<Rightarrow> unit outcome" where
  "set_pt p args m =
     (case setitem (TupleKey args) p m of
        (Inl e, m') \<Rightarrow> (Inl e, m')
      | (Inr u, m') \<Rightarrow> (Inr (), m'\<lparr>m_is_changed := True\<rparr>))"

text \<open>The getter and the setter of the property \<^verbatim>\<open>points\<close>.\<close>

definition points :: "CPManager \<Rightarrow> point list" where
  "points m = m_pts m"

definition bulk_fill :: "cpt_in list \<Rightarrow> CPManager \<Rightarrow> unit outcome" where
  "bulk_fill vs m =
     (case func_pts_set (cfg m) vs (dimension (base m)) (m_pts m) of
        (Inl e, pts') \<Rightarrow> (Inl e, m\<lparr>m_pts := pts'\<rparr>)
      | (Inr u, pts') \<Rightarrow> (Inr (), m\<lparr>m_pts := pts', m_is_changed := True\<rparr>))"

definition points_set :: "pts_in \<Rightarrow> CPManager \<Rightarrow> unit outcome" where
  "points_set val m =
     (case val of
        NotSeqs \<Rightarrow> (Inl GeomdlError, m)
      | Seqs vs \<Rightarrow>
          if int (length vs) \<noteq> m_count m then (Inl GeomdlError, m)
          else if dimension (base m) < 1 then
            (case py_getitem vs 0 of
               Inl e \<Rightarrow> (Inl e, m)
             | Inr NotSeq \<Rightarrow> (Inl TypeError, m)
             | Inr (Seq v0) \<Rightarrow>
                 bulk_fill vs (m\<lparr>base := (base m)\<lparr>dimension := int (length v0)\<rparr>\<rparr>))
          else bulk_fill vs m)"

definition call :: "pts_in \<Rightarrow> CPManager \<Rightarrow> unit outcome" where
  "call val m =
     (case points_set val m of
        (Inl e, m') \<Rightarrow> (Inl e, m')
      | (Inr u, m') \<Rightarrow> (Inr (), m'\<lparr>m_is_changed := True\<rparr>))"

subsection \<open>Reset\<close>

text \<open>
  \<^verbatim>\<open>CPManager.reset(**kwargs)\<close>: the parent's \<^verbatim>\<open>reset\<close> (the parameter
  \<open>base_reset\<close>, acting on the inherited part), then the call
  \<^verbatim>\<open>self._cfg['func_pts_init'](self.count, **kwargs)\<close>, whose returned pair the
  method does not assign to anything.
\<close>

definition reset ::
  "((string \<rightharpoonup> int) \<Rightarrow> GeomdlBase \<Rightarrow> GeomdlBase) \<Rightarrow> (string \<rightharpoonup> int) \<Rightarrow> CPManager
     \<Rightarrow> CPManager" where
  "reset base_reset kwargs m =
     (let m1 = m\<lparr>base := base_reset kwargs (base m)\<rparr> in
      case func_pts_init (cfg m1) (m_count m1) kwargs of (unused_pts, unused_ptsd) \<Rightarrow> m1)"

definition reset_changed :: "CPManager \<Rightarrow> CPManager" where
  "reset_changed m = m\<lparr>m_is_changed := False\<rparr>"

subsection \<open>Attached data\<close>

text \<open>\<^verbatim>\<open>d[k]\<close> on a dictionary raises \<^verbatim>\<open>KeyError\<close> for a missing key.\<close>

definition py_dict_getitem :: "('k \<rightharpoonup> 'v) \<Rightarrow> 'k \<Rightarrow> error + 'v" where
  "py_dict_getitem d k = (case d k of None \<Rightarrow> Inl KeyError | Some v \<Rightarrow> Inr v)"

text \<open>
  \<^verbatim>\<open>ptdata(dkey, *args)\<close>: the \<^verbatim>\<open>try\<close> block evaluates
  \<^verbatim>\<open>self._ptsd[dkey][idx]\<close>; the two \<^verbatim>\<open>except\<close> clauses turn
  \<^verbatim>\<open>IndexError\<close> and \<^verbatim>\<open>KeyError\<close> into the result \<^verbatim>\<open>None\<close>, and any other
  exception passes through.
\<close>

definition ptdata :: "string \<Rightarrow> int list \<Rightarrow> CPManager \<Rightarrow> error + pdatum option" where
  "ptdata dkey args m =
     (let idx = func_find_index (cfg m) (m_size m) args in
      case bnd (py_dict_getitem (m_ptsd m) dkey) (\<lambda>arr. py_getitem arr idx) of
        Inr d \<Rightarrow> Inr (Some d)
      | Inl e \<Rightarrow>
          if e = IndexError then Inr None
          else if e = KeyError then Inr None
          else Inl e)"

text \<open>
  The loop \<^verbatim>\<open>for j, v in enumerate(val): self._ptsd[k][idx][j] = v\<close> on the array
  \<^verbatim>\<open>self._ptsd[k]\<close>. Each round reads the entry at \<open>idx\<close> (\<^verbatim>\<open>IndexError\<close> out of
  range), and assigns into it: a float entry does not support item assignment
  (\<^verbatim>\<open>TypeError\<close>), a list entry is updated in place.
\<close>

fun write_sequence ::
  "pdatum list \<Rightarrow> int \<Rightarrow> int \<Rightarrow> real list \<Rightarrow> (error + unit) \<times> pdatum list" where
  "write_sequence arr idx j [] = (Inr (), arr)"
| "write_sequence arr idx j (v # vs) =
     (case py_index arr idx of
        None \<Rightarrow> (Inl IndexError, arr)
      | Some i \<Rightarrow>
          (case arr ! i of
             Scalar x \<Rightarrow> (Inl TypeError, arr)
           | Vector xs \<Rightarrow>
               (case py_setitem xs j v of
                  Inl e \<Rightarrow> (Inl e, arr)
                | Inr xs' \<Rightarrow> write_sequence (arr[i := Vector xs']) idx (j + 1) vs)))"

text \<open>
  The loop \<^verbatim>\<open>for k, val in adct.items()\<close> of \<^verbatim>\<open>set_ptdata\<close>, over the items in the
  dictionary's order. A value that is a sequence is \<open>Vector\<close>, any other is \<open>Scalar\<close>.
\<close>

fun set_ptdata_loop :: "(string \<times> pdatum) list \<Rightarrow> int \<Rightarrow> CPManager \<Rightarrow> unit outcome" where
  "set_ptdata_loop [] idx m = (Inr (), m)"
| "set_ptdata_loop ((k, val) # rest) idx m =
     (case m_ptsd m k of
        None \<Rightarrow> (Inl GeomdlError, m)
      | Some arr \<Rightarrow>
          (case val of
             Vector vs \<Rightarrow>
               (case write_sequence arr idx 0 vs of
                  (Inl e, arr') \<Rightarrow> (Inl e, m\<lparr>m_ptsd := (m_ptsd m)(k \<mapsto> arr')\<rparr>)
                | (Inr u, arr') \<Rightarrow>
                    set_ptdata_loop rest idx
                      (m\<lparr>m_ptsd := (m_ptsd m)(k \<mapsto> arr'), m_is_changed := True\<rparr>))
           | Scalar x \<Rightarrow>
               (case py_setitem arr idx (Scalar x) of
                  Inl e \<Rightarrow> (Inl e, m)
                | Inr arr' \<Rightarrow>
                    set_ptdata_loop rest idx
                      (m\<lparr>m_ptsd := (m_ptsd m)(k \<mapsto> arr'), m_is_changed := True\<rparr>))))"

text \<open>
  \<^verbatim>\<open>set_ptdata(adct, *args)\<close>: the \<^verbatim>\<open>except IndexError\<close> clause re-raises as
  \<^verbatim>\<open>GeomdlError\<close>.
\<close>

definition set_ptdata :: "(string \<times> pdatum) list \<Rightarrow> int list \<Rightarrow> CPManager \<Rightarrow> unit outcome" where
  "set_ptdata adct args m =
     (case set_ptdata_loop adct (func_find_index (cfg m) (m_size m) args) m of
        (Inl e, m') \<Rightarrow> (Inl (if e = IndexError then GeomdlError else e), m')
      | (Inr u, m') \<Rightarrow> (Inr (), m'))"

subsection \<open>Two concrete managers\<close>

text \<open>
  The manager that \<^verbatim>\<open>CPManager(2, 2, w=1)\<close> constructs, and the same manager after the
  four points \<open>(0,0), (1,0), (0,1), (1,1)\<close> and the weights \<open>1, 2, 3, 4\<close> were assigned
  and the flag cleared. The theorems below are instantiated at these two objects.
\<close>

definition sample_manager :: CPManager where
  "sample_manager =
     \<lparr> base = \<lparr>dimension = 2, opt = Map.empty\<rparr>, cfg = default_config, m_size = [2, 2],
       m_count = 4, m_pts = [[0, 0], [1, 0], [0, 1], [1, 1]],
       m_ptsd = [''w'' \<mapsto> [Scalar 1, Scalar 2, Scalar 3, Scalar 4]],
       m_is_changed = False \<rparr>"

definition fresh_manager :: CPManager where
  "fresh_manager =
     \<lparr> base = \<lparr>dimension = 0, opt = Map.empty\<rparr>, cfg = default_config, m_size = [2, 2],
       m_count = 4, m_pts = [[], [], [], []],
       m_ptsd = [''w'' \<mapsto> [Scalar 0, Scalar 0, Scalar 0, Scalar 0]],
       m_is_changed = False \<rparr>"

section \<open>Properties\<close>

lemmas py_defs = bnd_def py_getitem_def py_setitem_def py_index_def py_range_def

lemmas sample_defs = sample_manager_def fresh_manager_def default_config_def
  default_find_index_def default_ctrlpt_set_def default_ctrlpts_set_def

lemmas op_defs = setitem_def set_pt_def points_set_def call_def bulk_fill_def store_point_def
  infer_dimension_def set_ptdata_def reset_changed_def Let_def

lemma fresh_manager_constructed:
  "CPManager_init \<lparr>dimension = 0, opt = Map.empty\<rparr> default_config [IntArg 2, IntArg 2]
     [''w'' \<mapsto> 1] = Inr fresh_manager"
  by (auto simp: CPManager_init_def bnd_def default_config_def default_ctrlpts_init_def
      fresh_manager_def numeral_eq_Suc fun_eq_iff)

lemma sample_manager_reached:
  "reset_changed
     (snd (set_ptdata [(''w'', Scalar 4)] [1, 1]
     (snd (set_ptdata [(''w'', Scalar 3)] [0, 1]
     (snd (set_ptdata [(''w'', Scalar 2)] [1, 0]
     (snd (set_ptdata [(''w'', Scalar 1)] [0, 0]
     (snd (points_set (Seqs [Seq [0, 0], Seq [1, 0], Seq [0, 1], Seq [1, 1]])
            fresh_manager))))))))))
   = sample_manager"
  by (simp add: sample_defs points_set_def bulk_fill_def set_ptdata_def py_defs
      reset_changed_def fun_eq_iff)

subsection \<open>Quadtree-like neighbour extraction\<close>

text \<open>
  On a square grid the function returns one tuple per cell. For the 2x2 grid
  \<open>[a, b, c, d]\<close> every tuple holds the cell's point and two neighbours.
\<close>

lemma make_quadtree_2x2:
  "make_quadtree vg tr [a, b, c, d] 2 2 False =
     Inr [[a, c, b], [c, d, a], [b, d, a], [d, b, c]]"
  by (simp add: make_quadtree_def quadtree_points2d_def quadtree_cell_def get2d_def py_defs
      upto.simps)

text \<open>
  C3: for every flat point list of length \<open>size_u * size_v\<close> with both sizes at least
  one, \<^verbatim>\<open>make_quadtree\<close> is claimed to emit one tuple per grid cell. The code builds
  \<^verbatim>\<open>points2d\<close> with one row per \<open>v\<close> and one column per \<open>u\<close>, and then reads
  \<^verbatim>\<open>points2d[u][v]\<close>: on the two-point list with \<open>size_u = 1\<close> and \<open>size_v = 2\<close>, without
  extrapolation, it raises \<^verbatim>\<open>IndexError\<close> instead of returning two tuples.
\<close>

theorem make_quadtree_non_square_raises:
  "make_quadtree vg tr [p0, p1] 1 2 False = Inl IndexError"
  by (simp add: make_quadtree_def quadtree_points2d_def quadtree_cell_def get2d_def py_defs
      upto.simps)

subsection \<open>Reset\<close>

text \<open>\<^verbatim>\<open>reset\<close> changes nothing but the inherited part of the object.\<close>

lemma reset_frame:
  "m_pts (reset br kw m) = m_pts m \<and> m_ptsd (reset br kw m) = m_ptsd m \<and>
   m_size (reset br kw m) = m_size m \<and> m_count (reset br kw m) = m_count m \<and>
   cfg (reset br kw m) = cfg m"
  by (simp add: reset_def Let_def split: prod.splits)

text \<open>
  C1: after \<^verbatim>\<open>reset()\<close> every point slot is claimed to be the empty placeholder
  again. The code calls the backend's init function and drops what it returns: a manager
  of size \<open>(2,)\<close> whose slot 0 was assigned the point \<open>(1.0, 2.0)\<close> still holds that
  point after \<^verbatim>\<open>reset()\<close>.
\<close>

theorem reset_keeps_stored_point:
  "bnd (CPManager_init \<lparr>dimension = 0, opt = Map.empty\<rparr> default_config [IntArg 2] Map.empty)
     (\<lambda>m. Inr (m_pts (reset br kw (snd (setitem (IntKey 0) (Seq [1, 2]) m)))))
   = Inr [[1, 2], []]"
  by (simp add: CPManager_init_def default_config_def default_ctrlpts_init_def setitem_def
      infer_dimension_def store_point_def default_ctrlpt_set_def reset_def Let_def py_defs
      numeral_2_eq_2 split: prod.splits)

lemma store_point_flag_kept:
  "m_is_changed m \<Longrightarrow> m_is_changed (snd (store_point idx v m))"
  by (simp add: store_point_def split: sum.splits)

lemma setitem_flag_kept: "m_is_changed m \<Longrightarrow> m_is_changed (snd (setitem k val m))"
  by (simp add: setitem_def infer_dimension_def Let_def store_point_flag_kept
      split: cpt_in.splits key.splits)

lemma bulk_fill_flag_kept: "m_is_changed m \<Longrightarrow> m_is_changed (snd (bulk_fill vs m))"
  by (simp add: bulk_fill_def split: prod.splits sum.splits)

lemma points_set_flag_kept: "m_is_changed m \<Longrightarrow> m_is_changed (snd (points_set vals m))"
  by (simp add: points_set_def bulk_fill_flag_kept split: pts_in.splits sum.splits cpt_in.splits)

lemma set_ptdata_loop_flag_kept:
  "m_is_changed m \<Longrightarrow> m_is_changed (snd (set_ptdata_loop adct idx m))"
proof (induction adct arbitrary: m)
  case Nil
  then show ?case by simp
next
  case (Cons a adct)
  obtain k val where a: "a = (k, val)" by (cases a)
  from Cons.prems show ?case
    unfolding a by (simp add: Cons.IH split: option.splits pdatum.splits prod.splits sum.splits)
qed

lemma set_pt_flag_kept: "m_is_changed m \<Longrightarrow> m_is_changed (snd (set_pt val coords m))"
  using setitem_flag_kept [of m "TupleKey coords" val]
  by (auto simp: set_pt_def split: prod.splits sum.splits)

lemma call_flag_kept: "m_is_changed m \<Longrightarrow> m_is_changed (snd (call vals m))"
  using points_set_flag_kept [of m vals]
  by (auto simp: call_def split: prod.splits sum.splits)

lemma set_ptdata_flag_kept:
  "m_is_changed m \<Longrightarrow> m_is_changed (snd (set_ptdata adct coords m))"
  using set_ptdata_loop_flag_kept [of m adct "func_find_index (cfg m) (m_size m) coords"]
  by (auto simp: set_ptdata_def split: prod.splits sum.splits)

text \<open>
  C10: \<^verbatim>\<open>reset()\<close> leaves the flag \<^verbatim>\<open>is_changed\<close> exactly as it was before the
  call, whatever the parent's \<^verbatim>\<open>reset\<close> does to the inherited part; and no point or
  data assignment, successful or not, turns a set flag off. What is left to clear it is
  the constructor and \<^verbatim>\<open>reset_changed()\<close>.
\<close>

theorem reset_leaves_is_changed:
  "m_is_changed (reset base_reset kwargs m) = m_is_changed m
   \<and> (m_is_changed m \<longrightarrow>
        m_is_changed (snd (setitem k val m))
      \<and> m_is_changed (snd (set_pt val coords m))
      \<and> m_is_changed (snd (points_set vals m))
      \<and> m_is_changed (snd (call vals m))
      \<and> m_is_changed (snd (set_ptdata adct coords m)))"
  by (simp add: reset_def Let_def setitem_flag_kept set_pt_flag_kept points_set_flag_kept
      call_flag_kept set_ptdata_flag_kept split: prod.splits)

text \<open>
  With a parent \<^verbatim>\<open>reset\<close> that empties the option store: a set flag stays set, a clear
  flag stays clear.
\<close>

theorem reset_leaves_is_changed_witness:
  "m_is_changed (sample_manager\<lparr>m_is_changed := True\<rparr>)
   \<and> m_is_changed (reset (\<lambda>kw b. b\<lparr>opt := Map.empty\<rparr>) Map.empty
        (sample_manager\<lparr>m_is_changed := True\<rparr>))
   \<and> \<not> m_is_changed (reset (\<lambda>kw b. b\<lparr>opt := Map.empty\<rparr>) Map.empty sample_manager)
   \<and> m_is_changed (snd (setitem (IntKey 0) (Seq [5, 6])
        (sample_manager\<lparr>m_is_changed := True\<rparr>)))
   \<and> m_is_changed (snd (set_ptdata [(''z'', Scalar 1)] [0, 0]
        (sample_manager\<lparr>m_is_changed := True\<rparr>)))"
proof -
  have h: "m_is_changed (sample_manager\<lparr>m_is_changed := True\<rparr>)"
    and n: "\<not> m_is_changed sample_manager"
    by (simp_all add: sample_manager_def)
  show ?thesis
    using h n
      reset_leaves_is_changed [where m = "sample_manager\<lparr>m_is_changed := True\<rparr>"
        and base_reset = "\<lambda>kw b. b\<lparr>opt := Map.empty\<rparr>" and kwargs = Map.empty
        and k = "IntKey 0" and val = "Seq [5, 6]" and adct = "[(''z'', Scalar 1)]"
        and coords = "[0, 0]"]
      reset_leaves_is_changed [where m = sample_manager
        and base_reset = "\<lambda>kw b. b\<lparr>opt := Map.empty\<rparr>" and kwargs = Map.empty]
    by simp
qed

subsection \<open>Construction\<close>

lemma foldl_mult_prod_list: "foldl (\<lambda>x y. x * y) (a::int) xs = a * prod_list xs"
  by (induction xs arbitrary: a) (simp_all add: mult.assoc)

text \<open>
  C2, as the code has it: construction raises exactly when no size argument is given
  (\<^verbatim>\<open>reduce\<close> of an empty tuple). Every non-empty list of integer or finite float
  sizes is accepted, whatever the signs and fractional parts: \<open>size\<close> is the tuple of
  the arguments truncated by \<^verbatim>\<open>int()\<close>, \<open>count\<close> their product, the storage what the
  backend's init function returns for that count, and the flag is \<open>False\<close>.
\<close>

theorem CPManager_init_accepts_any_sizes:
  "(args \<noteq> [] \<longrightarrow>
      CPManager_init b c args kwargs =
        Inr \<lparr> base = b, cfg = c, m_size = map py_int args,
              m_count = prod_list (map py_int args),
              m_pts = fst (func_pts_init c (prod_list (map py_int args)) kwargs),
              m_ptsd = snd (func_pts_init c (prod_list (map py_int args)) kwargs),
              m_is_changed = False \<rparr>)
   \<and> CPManager_init b c [] kwargs = Inl TypeError"
  by (cases args)
     (simp_all add: CPManager_init_def bnd_def foldl_mult_prod_list split: prod.splits)

text \<open>The size \<open>(0,)\<close> is accepted: the manager has no point slot.\<close>

theorem CPManager_init_accepts_any_sizes_witness:
  "[IntArg 0] \<noteq> [] \<and>
   CPManager_init \<lparr>dimension = 0, opt = Map.empty\<rparr> default_config [IntArg 0] Map.empty =
     Inr \<lparr> base = \<lparr>dimension = 0, opt = Map.empty\<rparr>, cfg = default_config, m_size = [0],
           m_count = 0, m_pts = [], m_ptsd = Map.empty, m_is_changed = False \<rparr>"
  using CPManager_init_accepts_any_sizes [of "[IntArg 0]" "\<lparr>dimension = 0, opt = Map.empty\<rparr>"
      default_config Map.empty]
  by (simp add: default_config_def default_ctrlpts_init_def)

text \<open>
  C2 as stated fails: the sizes \<open>(-3, 2.5)\<close>, one negative and one non-integral, are
  accepted; the manager gets \<open>size = (-3, 2)\<close>, \<open>count = -6\<close> and no point slot.
\<close>

theorem CPManager_init_bad_sizes_counterexample:
  "CPManager_init \<lparr>dimension = 0, opt = Map.empty\<rparr> default_config
     [IntArg (- 3), FloatArg (5 / 2)] Map.empty
   = Inr \<lparr> base = \<lparr>dimension = 0, opt = Map.empty\<rparr>, cfg = default_config,
           m_size = [- 3, 2], m_count = - 6, m_pts = [], m_ptsd = Map.empty,
           m_is_changed = False \<rparr>"
  by (simp add: CPManager_init_def bnd_def default_config_def default_ctrlpts_init_def)

subsection \<open>Attached data: reading\<close>

lemma ptdata_known_key:
  "m_ptsd m dkey = Some arr \<Longrightarrow>
   ptdata dkey args m =
     (case py_index arr (func_find_index (cfg m) (m_size m) args) of
        None \<Rightarrow> Inr None | Some i \<Rightarrow> Inr (Some (arr ! i)))"
  by (simp add: ptdata_def py_dict_getitem_def bnd_def py_getitem_def Let_def
      split: option.splits)

lemma ptdata_unknown_key: "m_ptsd m dkey = None \<Longrightarrow> ptdata dkey args m = Inr None"
  by (simp add: ptdata_def py_dict_getitem_def bnd_def Let_def)

text \<open>
  C8, as the code has it: \<^verbatim>\<open>ptdata(key, coords)\<close> never raises. It returns
  \<^verbatim>\<open>None\<close> when the key is not a key of the data store (the keys are the attributes
  declared at construction), and when the index the mapper resolves lies outside the
  window \<open>-len .. len-1\<close> of the stored array, which is where Python's list indexing
  raises \<^verbatim>\<open>IndexError\<close>. With a key of the store it returns the stored scalar or
  vector at the resolved index \<open>idx\<close> when \<open>0 \<le> idx < len\<close>, and the one at \<open>len + idx\<close>
  when \<open>-len \<le> idx < 0\<close>: a negative index counts from the end and is not absent.
\<close>

theorem ptdata_absent_or_stored:
  "(\<exists>r. ptdata dkey args m = Inr r)
   \<and> (m_ptsd m dkey = None \<longrightarrow> ptdata dkey args m = Inr None)
   \<and> (\<forall>arr idx. m_ptsd m dkey = Some arr \<longrightarrow>
          idx = func_find_index (cfg m) (m_size m) args \<longrightarrow>
          (idx < - int (length arr) \<or> int (length arr) \<le> idx \<longrightarrow>
             ptdata dkey args m = Inr None)
        \<and> (0 \<le> idx \<and> idx < int (length arr) \<longrightarrow>
             ptdata dkey args m = Inr (Some (arr ! nat idx)))
        \<and> (- int (length arr) \<le> idx \<and> idx < 0 \<longrightarrow>
             ptdata dkey args m = Inr (Some (arr ! nat (int (length arr) + idx)))))"
proof (cases "m_ptsd m dkey")
  case None
  then show ?thesis by (simp add: ptdata_unknown_key)
next
  case (Some arr)
  then show ?thesis
    by (auto simp: ptdata_known_key py_index_def split: option.splits)
qed

text \<open>
  On the manager with the weights \<open>1, 2, 3, 4\<close>: the weight at \<open>(1, 1)\<close> is \<open>4\<close>, the
  coordinate \<open>(0, 2)\<close> resolves to index 4 and gives \<^verbatim>\<open>None\<close>, index \<open>-1\<close> reads the
  last entry, and the undeclared key \<open>z\<close> gives \<^verbatim>\<open>None\<close>.
\<close>

theorem ptdata_absent_or_stored_witness:
  "m_ptsd sample_manager ''w'' = Some [Scalar 1, Scalar 2, Scalar 3, Scalar 4]
   \<and> ptdata ''w'' [1, 1] sample_manager = Inr (Some (Scalar 4))
   \<and> ptdata ''w'' [0, 2] sample_manager = Inr None
   \<and> ptdata ''w'' [- 1, 0] sample_manager = Inr (Some (Scalar 4))
   \<and> m_ptsd sample_manager ''z'' = None
   \<and> ptdata ''z'' [0, 0] sample_manager = Inr None"
proof -
  have k: "m_ptsd sample_manager ''w'' = Some [Scalar 1, Scalar 2, Scalar 3, Scalar 4]"
    and z: "m_ptsd sample_manager ''z'' = None"
    by (simp_all add: sample_manager_def)
  have i1: "func_find_index (cfg sample_manager) (m_size sample_manager) [1, 1] = 3"
    and i2: "func_find_index (cfg sample_manager) (m_size sample_manager) [0, 2] = 4"
    and i3: "func_find_index (cfg sample_manager) (m_size sample_manager) [- 1, 0] = - 1"
    by (simp_all add: sample_defs)
  show ?thesis
    using k z i1 i2 i3
      ptdata_absent_or_stored [of "''w''" "[1, 1]" sample_manager]
      ptdata_absent_or_stored [of "''w''" "[0, 2]" sample_manager]
      ptdata_absent_or_stored [of "''w''" "[- 1, 0]" sample_manager]
      ptdata_absent_or_stored [of "''z''" "[0, 0]" sample_manager]
    by (auto simp: numeral_eq_Suc)
qed

text \<open>
  C8 as stated fails: read with the linear range \<open>0 .. count-1\<close> of the index mapper, the
  coordinate \<open>(-1, 0)\<close> of the 2x2 manager resolves to the index \<open>-1\<close>, which is out of
  that range, and \<^verbatim>\<open>ptdata\<close> returns the weight \<open>4\<close> stored for the point \<open>(1, 1)\<close>
  instead of \<^verbatim>\<open>None\<close>.
\<close>

theorem ptdata_negative_index_counterexample:
  "m_count sample_manager = 4
   \<and> func_find_index (cfg sample_manager) (m_size sample_manager) [- 1, 0] = - 1
   \<and> ptdata ''w'' [- 1, 0] sample_manager = Inr (Some (Scalar 4))"
  by (simp add: sample_defs ptdata_def py_dict_getitem_def py_defs Let_def)

text \<open>
  The keys of the data store are the attributes declared at construction, each with an
  array of \<open>count\<close> entries, and no operation adds or removes a key or changes the length
  of an array.
\<close>

lemma init_store_shape:
  "CPManager_init b default_config args kwargs = Inr m \<Longrightarrow>
   map_option length (m_ptsd m k) = map_option (\<lambda>v. nat (m_count m)) (kwargs k)
   \<and> length (m_pts m) = nat (m_count m)"
  by (auto simp: CPManager_init_def bnd_def default_config_def default_ctrlpts_init_def
      split: sum.splits option.splits)

lemma write_sequence_length: "length (snd (write_sequence arr idx j vs)) = length arr"
  by (induction arr idx j vs rule: write_sequence.induct)
     (simp_all split: option.splits pdatum.splits sum.splits)

lemma set_ptdata_loop_store_shape:
  "map_option length (m_ptsd (snd (set_ptdata_loop adct idx m)) k) = map_option length (m_ptsd m k)"
proof (induction adct arbitrary: m)
  case Nil
  then show ?case by simp
next
  case (Cons a adct)
  obtain k' val where a: "a = (k', val)" by (cases a)
  show ?case
  proof (cases "m_ptsd m k'")
    case None
    then show ?thesis by (simp add: a)
  next
    case (Some arr)
    show ?thesis
    proof (cases val)
      case (Scalar x)
      with Some show ?thesis
        by (auto simp: a Cons.IH py_setitem_def split: option.splits sum.splits)
    next
      case (Vector vs)
      obtain r arr' where w: "write_sequence arr idx 0 vs = (r, arr')"
        by (cases "write_sequence arr idx 0 vs")
      then have "length arr' = length arr"
        using write_sequence_length [of arr idx 0 vs] by simp
      with Some Vector w show ?thesis
        by (cases r) (auto simp: a Cons.IH)
    qed
  qed
qed

lemma set_ptdata_store_shape:
  "map_option length (m_ptsd (snd (set_ptdata adct coords m)) k) = map_option length (m_ptsd m k)"
  using set_ptdata_loop_store_shape [of adct "func_find_index (cfg m) (m_size m) coords" m k]
  by (auto simp: set_ptdata_def split: prod.splits sum.splits)

lemma point_ops_store:
  "m_ptsd (snd (setitem key val m)) = m_ptsd m"
  "m_ptsd (snd (set_pt val coords m)) = m_ptsd m"
  "m_ptsd (snd (points_set vals m)) = m_ptsd m"
  "m_ptsd (snd (call vals m)) = m_ptsd m"
  "m_ptsd (reset_changed m) = m_ptsd m"
proof -
  show 1: "m_ptsd (snd (setitem key val m)) = m_ptsd m" for key
    by (simp add: setitem_def infer_dimension_def store_point_def Let_def
        split: cpt_in.splits key.splits sum.splits)
  show 2: "m_ptsd (snd (points_set vals m)) = m_ptsd m"
    by (simp add: points_set_def bulk_fill_def
        split: pts_in.splits cpt_in.splits sum.splits prod.splits)
  show "m_ptsd (snd (set_pt val coords m)) = m_ptsd m"
    using 1 [of "TupleKey coords"] by (auto simp: set_pt_def split: prod.splits sum.splits)
  show "m_ptsd (snd (call vals m)) = m_ptsd m"
    using 2 by (auto simp: call_def split: prod.splits sum.splits)
  show "m_ptsd (reset_changed m) = m_ptsd m"
    by (simp add: reset_changed_def)
qed

subsection \<open>The change flag\<close>

lemma set_ptdata_loop_changed:
  "fst (set_ptdata_loop adct idx m) = Inr () \<Longrightarrow> adct \<noteq> [] \<or> m_is_changed m \<Longrightarrow>
   m_is_changed (snd (set_ptdata_loop adct idx m))"
proof (induction adct arbitrary: m)
  case Nil
  then show ?case by simp
next
  case (Cons a adct)
  obtain k val where a: "a = (k, val)" by (cases a)
  from Cons.prems(1) show ?case
    unfolding a
    by (auto split: option.splits pdatum.splits prod.splits sum.splits intro!: Cons.IH)
qed

lemma store_point_changed:
  "fst (store_point idx v m) = Inr () \<Longrightarrow> m_is_changed (snd (store_point idx v m))"
  by (auto simp: store_point_def split: sum.splits)

lemma setitem_changed:
  "fst (setitem k val m) = Inr () \<Longrightarrow> m_is_changed (snd (setitem k val m))"
  by (auto simp: setitem_def Let_def store_point_changed split: cpt_in.splits key.splits if_splits)

lemma bulk_fill_changed:
  "fst (bulk_fill vs m) = Inr () \<Longrightarrow> m_is_changed (snd (bulk_fill vs m))"
  by (auto simp: bulk_fill_def split: prod.splits sum.splits)

lemma points_set_changed:
  "fst (points_set vals m) = Inr () \<Longrightarrow> m_is_changed (snd (points_set vals m))"
  by (auto simp: points_set_def bulk_fill_changed split: pts_in.splits sum.splits cpt_in.splits if_splits)

text \<open>
  C5: \<^verbatim>\<open>is_changed\<close> is \<open>False\<close> right after construction and right after
  \<^verbatim>\<open>reset_changed()\<close>, and \<open>True\<close> after every call that returns without raising of:
  a single point set by linear index or by coordinates (\<^verbatim>\<open>__setitem__\<close>,
  \<^verbatim>\<open>set_pt\<close>), a bulk assignment (the \<^verbatim>\<open>points\<close> setter, \<^verbatim>\<open>__call__\<close>), and
  \<^verbatim>\<open>set_ptdata\<close> with a dictionary that holds at least one datum to attach.
\<close>

theorem is_changed_flag:
  "(CPManager_init b c args kwargs = Inr m0 \<longrightarrow> \<not> m_is_changed m0)
   \<and> \<not> m_is_changed (reset_changed m)
   \<and> (fst (setitem (IntKey i) val m) = Inr () \<longrightarrow>
        m_is_changed (snd (setitem (IntKey i) val m)))
   \<and> (fst (setitem (TupleKey coords) val m) = Inr () \<longrightarrow>
        m_is_changed (snd (setitem (TupleKey coords) val m)))
   \<and> (fst (set_pt val coords m) = Inr () \<longrightarrow> m_is_changed (snd (set_pt val coords m)))
   \<and> (fst (points_set vals m) = Inr () \<longrightarrow> m_is_changed (snd (points_set vals m)))
   \<and> (fst (call vals m) = Inr () \<longrightarrow> m_is_changed (snd (call vals m)))
   \<and> (adct \<noteq> [] \<longrightarrow> fst (set_ptdata adct coords m) = Inr () \<longrightarrow>
        m_is_changed (snd (set_ptdata adct coords m)))"
proof -
  have init: "CPManager_init b c args kwargs = Inr m0 \<longrightarrow> \<not> m_is_changed m0"
    by (auto simp: CPManager_init_def bnd_def split: sum.splits prod.splits)
  have rc: "\<not> m_is_changed (reset_changed m)"
    by (simp add: reset_changed_def)
  have sp: "fst (set_pt val coords m) = Inr () \<longrightarrow> m_is_changed (snd (set_pt val coords m))"
    by (auto simp: set_pt_def split: prod.splits sum.splits)
  have cl: "fst (call vals m) = Inr () \<longrightarrow> m_is_changed (snd (call vals m))"
    by (auto simp: call_def split: prod.splits sum.splits)
  have sd: "adct \<noteq> [] \<longrightarrow> fst (set_ptdata adct coords m) = Inr () \<longrightarrow>
        m_is_changed (snd (set_ptdata adct coords m))"
    using set_ptdata_loop_changed [of adct "func_find_index (cfg m) (m_size m) coords" m]
    by (auto simp: set_ptdata_def split: prod.splits sum.splits)
  show ?thesis
    using init rc sp cl sd setitem_changed points_set_changed by blast
qed

text \<open>Each of these calls succeeds on the freshly constructed manager and sets the flag.\<close>

theorem is_changed_flag_witness:
  "CPManager_init \<lparr>dimension = 0, opt = Map.empty\<rparr> default_config [IntArg 2, IntArg 2]
     [''w'' \<mapsto> 1] = Inr fresh_manager
   \<and> \<not> m_is_changed fresh_manager
   \<and> \<not> m_is_changed (reset_changed sample_manager)
   \<and> fst (setitem (IntKey 3) (Seq [1, 1]) fresh_manager) = Inr ()
   \<and> m_is_changed (snd (setitem (IntKey 3) (Seq [1, 1]) fresh_manager))
   \<and> fst (setitem (TupleKey [1, 1]) (Seq [1, 1]) fresh_manager) = Inr ()
   \<and> m_is_changed (snd (setitem (TupleKey [1, 1]) (Seq [1, 1]) fresh_manager))
   \<and> fst (set_pt (Seq [1, 1]) [1, 1] fresh_manager) = Inr ()
   \<and> m_is_changed (snd (set_pt (Seq [1, 1]) [1, 1] fresh_manager))
   \<and> fst (points_set (Seqs [Seq [0, 0], Seq [1, 0], Seq [0, 1], Seq [1, 1]]) fresh_manager)
       = Inr ()
   \<and> m_is_changed
       (snd (points_set (Seqs [Seq [0, 0], Seq [1, 0], Seq [0, 1], Seq [1, 1]]) fresh_manager))
   \<and> fst (call (Seqs [Seq [0, 0], Seq [1, 0], Seq [0, 1], Seq [1, 1]]) fresh_manager) = Inr ()
   \<and> m_is_changed
       (snd (call (Seqs [Seq [0, 0], Seq [1, 0], Seq [0, 1], Seq [1, 1]]) fresh_manager))
   \<and> [(''w'', Scalar 5)] \<noteq> []
   \<and> fst (set_ptdata [(''w'', Scalar 5)] [1, 1] fresh_manager) = Inr ()
   \<and> m_is_changed (snd (set_ptdata [(''w'', Scalar 5)] [1, 1] fresh_manager))"
proof -
  have h1: "fst (setitem (IntKey 3) (Seq [1, 1]) fresh_manager) = Inr ()"
    and h2: "fst (setitem (TupleKey [1, 1]) (Seq [1, 1]) fresh_manager) = Inr ()"
    and h3: "fst (set_pt (Seq [1, 1]) [1, 1] fresh_manager) = Inr ()"
    by (simp_all add: op_defs sample_defs py_defs)
  have h4: "fst (points_set (Seqs [Seq [0, 0], Seq [1, 0], Seq [0, 1], Seq [1, 1]])
      fresh_manager) = Inr ()"
    and h5: "fst (call (Seqs [Seq [0, 0], Seq [1, 0], Seq [0, 1], Seq [1, 1]])
      fresh_manager) = Inr ()"
    by (simp_all add: op_defs sample_defs py_defs)
  have h6: "fst (set_ptdata [(''w'', Scalar 5)] [1, 1] fresh_manager) = Inr ()"
    by (simp add: op_defs sample_defs py_defs)
  show ?thesis
    using h1 h2 h3 h4 h5 h6 fresh_manager_constructed
      is_changed_flag [where b = "\<lparr>dimension = 0, opt = Map.empty\<rparr>" and c = default_config
        and args = "[IntArg 2, IntArg 2]" and kwargs = "[''w'' \<mapsto> 1]"
        and ?m0.0 = fresh_manager and m = fresh_manager and i = 3 and val = "Seq [1, 1]"
        and coords = "[1, 1]"
        and vals = "Seqs [Seq [0, 0], Seq [1, 0], Seq [0, 1], Seq [1, 1]]"
        and adct = "[(''w'', Scalar 5)]"]
    by (simp add: reset_changed_def)
qed

text \<open>
  \<^verbatim>\<open>set_ptdata\<close> with an empty dictionary attaches nothing and returns with the object
  as it was, the flag included.
\<close>

lemma set_ptdata_empty: "set_ptdata [] coords m = (Inr (), m)"
  by (simp add: set_ptdata_def)

subsection \<open>The spatial dimension\<close>

lemma store_point_base: "base (snd (store_point idx v m)) = base m"
  by (simp add: store_point_def split: sum.splits)

lemma bulk_fill_base: "base (snd (bulk_fill vs m)) = base m"
  by (simp add: bulk_fill_def split: prod.splits sum.splits)

lemma set_ptdata_loop_base: "base (snd (set_ptdata_loop adct idx m)) = base m"
proof (induction adct arbitrary: m)
  case Nil
  then show ?case by simp
next
  case (Cons a adct)
  obtain k val where a: "a = (k, val)" by (cases a)
  show ?case
    unfolding a by (simp add: Cons.IH split: option.splits pdatum.splits prod.splits sum.splits)
qed

lemma setitem_dimension_kept:
  "1 \<le> dimension (base m) \<Longrightarrow> dimension (base (snd (setitem k val m))) = dimension (base m)"
  by (simp add: setitem_def infer_dimension_def Let_def store_point_base
      split: cpt_in.splits key.splits)

lemma points_set_dimension_kept:
  "1 \<le> dimension (base m) \<Longrightarrow> dimension (base (snd (points_set vals m))) = dimension (base m)"
  by (simp add: points_set_def bulk_fill_base split: pts_in.splits)

lemma setitem_dimension_inferred:
  "dimension (base m) < 1 \<Longrightarrow> fst (setitem k (Seq v) m) = Inr () \<Longrightarrow>
   dimension (base (snd (setitem k (Seq v) m))) = int (length v)"
  by (simp add: setitem_def infer_dimension_def Let_def store_point_base
      split: key.splits if_splits)

lemma points_set_dimension_inferred:
  "dimension (base m) < 1 \<Longrightarrow> fst (points_set (Seqs (Seq v0 # rest)) m) = Inr () \<Longrightarrow>
   dimension (base (snd (points_set (Seqs (Seq v0 # rest)) m))) = int (length v0)"
  by (simp add: points_set_def bulk_fill_base py_getitem_def py_index_def split: if_splits)

lemma setitem_wrong_length:
  "1 \<le> dimension (base m) \<Longrightarrow> int (length v) \<noteq> dimension (base m) \<Longrightarrow>
   setitem k (Seq v) m = (Inl ValueError, m)"
  by (simp add: setitem_def infer_dimension_def Let_def)

lemma ctrlpts_set_loop_wrong_length:
  "Seq v \<in> set vs \<Longrightarrow> int (length v) \<noteq> d \<Longrightarrow> isl (fst (ctrlpts_set_loop vs idx d out))"
proof (induction vs arbitrary: idx out)
  case Nil
  then show ?case by simp
next
  case (Cons a vs)
  show ?case
  proof (cases a)
    case NotSeq
    then show ?thesis by simp
  next
    case (Seq c)
    with Cons show ?thesis
      by (auto split: sum.splits)
  qed
qed

lemma points_set_wrong_length:
  assumes "1 \<le> dimension (base m)" "func_pts_set (cfg m) = default_ctrlpts_set"
    "Seq v \<in> set vs" "int (length v) \<noteq> dimension (base m)"
  shows "isl (fst (points_set (Seqs vs) m))"
  using assms ctrlpts_set_loop_wrong_length [of v vs "dimension (base m)" 0 "m_pts m"]
  by (auto simp: points_set_def bulk_fill_def default_ctrlpts_set_def split: prod.splits sum.splits)

lemma set_pt_base: "base (snd (set_pt val coords m)) = base (snd (setitem (TupleKey coords) val m))"
  by (simp add: set_pt_def split: prod.splits sum.splits)

lemma call_base: "base (snd (call vals m)) = base (snd (points_set vals m))"
  by (simp add: call_def split: prod.splits sum.splits)

lemma set_ptdata_base: "base (snd (set_ptdata adct coords m)) = base m"
  using set_ptdata_loop_base [of adct "func_find_index (cfg m) (m_size m) coords" m]
  by (auto simp: set_ptdata_def split: prod.splits sum.splits)

lemma call_fails: "isl (fst (call vals m)) = isl (fst (points_set vals m))"
  by (auto simp: call_def split: prod.splits sum.splits)

text \<open>
  C6: while the dimension is unset (below one), a single set that succeeds fixes it to the
  length of the assigned point, and a bulk set that succeeds to the length of the first
  point. Once the dimension is at least one, no assignment changes it, whether it
  succeeds or raises; a single set of a point of another length raises
  \<^verbatim>\<open>ValueError\<close> and leaves the object as it was; and a bulk set (default backend)
  holding a point of another length raises.
\<close>

theorem dimension_inferred_then_fixed:
  "(dimension (base m) < 1 \<longrightarrow> fst (setitem k (Seq v) m) = Inr () \<longrightarrow>
      dimension (base (snd (setitem k (Seq v) m))) = int (length v))
   \<and> (dimension (base m) < 1 \<longrightarrow> fst (points_set (Seqs (Seq v0 # rest)) m) = Inr () \<longrightarrow>
      dimension (base (snd (points_set (Seqs (Seq v0 # rest)) m))) = int (length v0))
   \<and> (1 \<le> dimension (base m) \<longrightarrow>
        dimension (base (snd (setitem k val m))) = dimension (base m)
      \<and> dimension (base (snd (set_pt val coords m))) = dimension (base m)
      \<and> dimension (base (snd (points_set vals m))) = dimension (base m)
      \<and> dimension (base (snd (call vals m))) = dimension (base m)
      \<and> dimension (base (snd (set_ptdata adct coords m))) = dimension (base m)
      \<and> dimension (base (reset_changed m)) = dimension (base m))
   \<and> (1 \<le> dimension (base m) \<longrightarrow> int (length v) \<noteq> dimension (base m) \<longrightarrow>
        setitem k (Seq v) m = (Inl ValueError, m)
      \<and> set_pt (Seq v) coords m = (Inl ValueError, m))
   \<and> (1 \<le> dimension (base m) \<longrightarrow> func_pts_set (cfg m) = default_ctrlpts_set \<longrightarrow>
        Seq v \<in> set vs \<longrightarrow> int (length v) \<noteq> dimension (base m) \<longrightarrow>
        isl (fst (points_set (Seqs vs) m)) \<and> isl (fst (call (Seqs vs) m)))"
proof -
  have kept: "1 \<le> dimension (base m) \<longrightarrow>
        dimension (base (snd (setitem k val m))) = dimension (base m)
      \<and> dimension (base (snd (set_pt val coords m))) = dimension (base m)
      \<and> dimension (base (snd (points_set vals m))) = dimension (base m)
      \<and> dimension (base (snd (call vals m))) = dimension (base m)
      \<and> dimension (base (snd (set_ptdata adct coords m))) = dimension (base m)
      \<and> dimension (base (reset_changed m)) = dimension (base m)"
    by (simp add: setitem_dimension_kept points_set_dimension_kept set_pt_base call_base
        set_ptdata_base reset_changed_def)
  have single: "1 \<le> dimension (base m) \<longrightarrow> int (length v) \<noteq> dimension (base m) \<longrightarrow>
        setitem k (Seq v) m = (Inl ValueError, m)
      \<and> set_pt (Seq v) coords m = (Inl ValueError, m)"
    by (simp add: setitem_wrong_length set_pt_def)
  have bulk: "1 \<le> dimension (base m) \<longrightarrow> func_pts_set (cfg m) = default_ctrlpts_set \<longrightarrow>
        Seq v \<in> set vs \<longrightarrow> int (length v) \<noteq> dimension (base m) \<longrightarrow>
        isl (fst (points_set (Seqs vs) m)) \<and> isl (fst (call (Seqs vs) m))"
    using points_set_wrong_length [of m v vs]
    by (simp add: call_fails)
  show ?thesis
    using kept single bulk setitem_dimension_inferred points_set_dimension_inferred
    by blast
qed

text \<open>
  The fresh manager takes dimension 3 from a first point \<open>(7, 8, 9)\<close> and dimension 2
  from a first bulk assignment; the manager of dimension 2 refuses \<open>(7, 8, 9)\<close> in a
  single and in a bulk assignment.
\<close>

theorem dimension_inferred_then_fixed_witness:
  "dimension (base fresh_manager) < 1
   \<and> fst (setitem (IntKey 0) (Seq [7, 8, 9]) fresh_manager) = Inr ()
   \<and> dimension (base (snd (setitem (IntKey 0) (Seq [7, 8, 9]) fresh_manager))) = 3
   \<and> fst (points_set (Seqs (Seq [0, 0] # [Seq [1, 0], Seq [0, 1], Seq [1, 1]])) fresh_manager)
       = Inr ()
   \<and> dimension (base (snd (points_set
         (Seqs (Seq [0, 0] # [Seq [1, 0], Seq [0, 1], Seq [1, 1]])) fresh_manager))) = 2
   \<and> 1 \<le> dimension (base sample_manager)
   \<and> dimension (base (snd (setitem (IntKey 0) (Seq [5, 6]) sample_manager))) = 2
   \<and> int (length [7, 8, 9 :: real]) \<noteq> dimension (base sample_manager)
   \<and> setitem (IntKey 0) (Seq [7, 8, 9]) sample_manager = (Inl ValueError, sample_manager)
   \<and> set_pt (Seq [7, 8, 9]) [0, 0] sample_manager = (Inl ValueError, sample_manager)
   \<and> func_pts_set (cfg sample_manager) = default_ctrlpts_set
   \<and> Seq [7, 8, 9] \<in> set [Seq [0, 0], Seq [1, 0], Seq [7, 8, 9], Seq [1, 1]]
   \<and> isl (fst (points_set (Seqs [Seq [0, 0], Seq [1, 0], Seq [7, 8, 9], Seq [1, 1]])
        sample_manager))
   \<and> isl (fst (call (Seqs [Seq [0, 0], Seq [1, 0], Seq [7, 8, 9], Seq [1, 1]])
        sample_manager))"
proof -
  have d0: "dimension (base fresh_manager) < 1" and d2: "1 \<le> dimension (base sample_manager)"
    and dd: "dimension (base sample_manager) = 2"
    and df: "func_pts_set (cfg sample_manager) = default_ctrlpts_set"
    by (simp_all add: sample_defs)
  have h1: "fst (setitem (IntKey 0) (Seq [7, 8, 9]) fresh_manager) = Inr ()"
    by (simp add: op_defs sample_defs py_defs)
  have h2: "fst (points_set (Seqs (Seq [0, 0] # [Seq [1, 0], Seq [0, 1], Seq [1, 1]]))
      fresh_manager) = Inr ()"
    by (simp add: op_defs sample_defs py_defs)
  note T1 = dimension_inferred_then_fixed [where m = fresh_manager and k = "IntKey 0"
      and v = "[7, 8, 9]" and ?v0.0 = "[0, 0]" and rest = "[Seq [1, 0], Seq [0, 1], Seq [1, 1]]"]
  note T2 = dimension_inferred_then_fixed [where m = sample_manager and k = "IntKey 0"
      and v = "[7, 8, 9]" and val = "Seq [5, 6]" and coords = "[0, 0]"
      and vs = "[Seq [0, 0], Seq [1, 0], Seq [7, 8, 9], Seq [1, 1]]"]
  show ?thesis
    using d0 d2 dd df h1 h2 T1 T2 by simp
qed

subsection \<open>The index mapper\<close>

lemma find_index_loop_sum:
  "find_index_loop sz i args idx =
     idx + (\<Sum>k<length args. args ! k * prod_list (take (i + k) sz))"
proof (induction args arbitrary: i idx)
  case Nil
  then show ?case by simp
next
  case (Cons a args)
  have "(\<Sum>k<Suc (length args). (a # args) ! k * prod_list (take (i + k) sz)) =
        a * prod_list (take i sz) + (\<Sum>k<length args. args ! k * prod_list (take (Suc i + k) sz))"
    by (simp add: sum.lessThan_Suc_shift del: sum.lessThan_Suc)
  then show ?case
    by (simp add: Cons.IH foldl_mult_prod_list)
qed

lemma default_find_index_sum:
  "default_find_index sz cs = (\<Sum>i<length cs. cs ! i * prod_list (take i sz))"
  by (simp add: default_find_index_def find_index_loop_sum)

lemma default_find_index_Nil: "default_find_index sz [] = 0"
  by (simp add: default_find_index_def)

lemma default_find_index_Cons:
  "default_find_index (s # sz) (c # cs) = c + s * default_find_index sz cs"
  by (simp add: default_find_index_sum sum.lessThan_Suc_shift sum_distrib_left mult_ac
      del: sum.lessThan_Suc)

lemma coordinates_Nil: "coordinates [] = {[]}"
  by (auto simp: coordinates_def)

lemma coordinates_Cons: "coordinates (s # sz) = {c # cs | c cs. 0 \<le> c \<and> c < s \<and> cs \<in> coordinates sz}"
  by (auto simp: coordinates_def list_all2_Cons2)

lemma mixed_radix_eq:
  fixes c c' s x x' :: int
  assumes "0 \<le> c" "c < s" "0 \<le> c'" "c' < s" "c + s * x = c' + s * x'"
  shows "c = c' \<and> x = x'"
proof -
  have "c = (c + s * x) mod s"
    using assms(1,2) by simp
  also have "\<dots> = (c' + s * x') mod s"
    by (simp only: assms(5))
  also have "\<dots> = c'"
    using assms(3,4) by simp
  finally have "c = c'" .
  with assms show ?thesis by simp
qed

lemma default_find_index_bij:
  "\<forall>s\<in>set sz. 0 < s \<Longrightarrow> bij_betw (default_find_index sz) (coordinates sz) {0 ..< prod_list sz}"
proof (induction sz)
  case Nil
  show ?case
    by (auto simp: coordinates_Nil default_find_index_Nil bij_betw_def)
next
  case (Cons s sz)
  let ?g = "default_find_index sz" and ?P = "prod_list sz"
  from Cons have s: "0 < s" and IH: "bij_betw ?g (coordinates sz) {0 ..< ?P}"
    by simp_all
  have inj: "inj_on ?g (coordinates sz)" and img: "?g ` coordinates sz = {0 ..< ?P}"
    using IH by (simp_all add: bij_betw_def)
  have "inj_on (default_find_index (s # sz)) (coordinates (s # sz))"
  proof (rule inj_onI)
    fix a b
    assume a: "a \<in> coordinates (s # sz)" and b: "b \<in> coordinates (s # sz)"
      and eq: "default_find_index (s # sz) a = default_find_index (s # sz) b"
    from a obtain c cs where a': "a = c # cs" "0 \<le> c" "c < s" "cs \<in> coordinates sz"
      by (auto simp: coordinates_Cons)
    from b obtain c' cs' where b': "b = c' # cs'" "0 \<le> c'" "c' < s" "cs' \<in> coordinates sz"
      by (auto simp: coordinates_Cons)
    from eq have "c + s * ?g cs = c' + s * ?g cs'"
      by (simp add: a' b' default_find_index_Cons)
    then have "c = c' \<and> ?g cs = ?g cs'"
      using a' b' by (intro mixed_radix_eq) auto
    then show "a = b"
      using a' b' inj by (auto dest: inj_onD)
  qed
  moreover have "default_find_index (s # sz) ` coordinates (s # sz) = {0 ..< prod_list (s # sz)}"
  proof (intro equalityI subsetI)
    fix n
    assume "n \<in> default_find_index (s # sz) ` coordinates (s # sz)"
    then obtain c cs where n: "n = c + s * ?g cs" and c: "0 \<le> c" "c < s" and cs: "cs \<in> coordinates sz"
      by (auto simp: coordinates_Cons default_find_index_Cons)
    from cs have "?g cs \<in> ?g ` coordinates sz" by (rule imageI)
    with img have g: "0 \<le> ?g cs" "?g cs + 1 \<le> ?P" by simp_all
    have "s * (?g cs + 1) \<le> s * ?P"
      using g s by (intro mult_left_mono) auto
    then have "c + s * ?g cs < s * ?P"
      using c by (simp add: algebra_simps)
    moreover have "0 \<le> c + s * ?g cs"
      using c g s by simp
    ultimately show "n \<in> {0 ..< prod_list (s # sz)}"
      by (simp add: n)
  next
    fix n
    assume "n \<in> {0 ..< prod_list (s # sz)}"
    then have n: "0 \<le> n" "n < s * ?P" by simp_all
    have "0 \<le> n div s" using n s by (simp add: pos_imp_zdiv_nonneg_iff)
    moreover have "n div s < ?P"
    proof -
      have "0 \<le> n mod s"
        using s by simp
      moreover have "n = s * (n div s) + n mod s"
        by simp
      ultimately have "s * (n div s) < s * ?P"
        using n by linarith
      then show ?thesis
        using s by (simp add: mult_less_cancel_left_pos)
    qed
    ultimately have "n div s \<in> ?g ` coordinates sz"
      by (simp add: img)
    then obtain cs where cs: "cs \<in> coordinates sz" "?g cs = n div s" by auto
    have "(n mod s) # cs \<in> coordinates (s # sz)"
      using cs s by (simp add: coordinates_Cons)
    moreover have "default_find_index (s # sz) ((n mod s) # cs) = n"
      by (simp add: default_find_index_Cons cs)
    ultimately show "n \<in> default_find_index (s # sz) ` coordinates (s # sz)"
      by (metis imageI)
  qed
  ultimately show ?case
    by (simp add: bij_betw_def)
qed

text \<open>
  C4: \<^verbatim>\<open>default_find_index\<close> computes \<open>sum_i (c_i * prod (s_0 .. s_(i-1)))\<close>, and for a
  shape of positive sizes it is a bijection between the coordinate tuples with
  \<open>0 \<le> c_i < s_i\<close> and the linear indices \<open>0 .. count - 1\<close>, where \<open>count\<close> is the product
  of the sizes.
\<close>

theorem default_find_index_bijection:
  "default_find_index sz cs = (\<Sum>i<length cs. cs ! i * prod_list (take i sz))
   \<and> ((\<forall>s\<in>set sz. 0 < s) \<longrightarrow>
        bij_betw (default_find_index sz) (coordinates sz) {0 ..< prod_list sz})"
  using default_find_index_sum [of sz cs] default_find_index_bij [of sz] by blast

text \<open>The shape \<open>(2, 3)\<close>: the coordinate \<open>(1, 2)\<close> has index \<open>1 + 2 * 2 = 5\<close>.\<close>

theorem default_find_index_bijection_witness:
  "0 < (2::int) \<and> 0 < (3::int)
   \<and> default_find_index [2, 3] [1, 2] = 5
   \<and> bij_betw (default_find_index [2, 3]) (coordinates [2, 3]) {0 ..< 6}"
  using default_find_index_bijection [of "[2, 3]" "[1, 2]"]
  by (simp add: numeral_2_eq_2)

subsection \<open>Zig-zag reordering\<close>

lemma py_getitem_nat: "i < length xs \<Longrightarrow> py_getitem xs (int i) = Inr (xs ! i)"
  by (simp add: py_getitem_def py_index_def)

lemma row_end_mod:
  assumes "t < c"
  shows "((int (k * c + t) + 1) mod int c = 0) = (Suc t = c)"
proof -
  have "int (k * c + t) + 1 = int (Suc t + k * c)" by simp
  then have "(int (k * c + t) + 1) mod int c = int ((Suc t + k * c) mod c)"
    by (simp only: zmod_int)
  also have "(Suc t + k * c) mod c = Suc t mod c" by simp
  finally show ?thesis
    using assms by (cases "Suc t = c") simp_all
qed

lemma zigzag_step:
  assumes "0 < c" "t < c" "k * c + t < length ps" "py_getitem ps j = Inr p"
    "j = (if fwd then int (k * c + t) else rv)"
  shows "zigzag_loop ps (int c) (int (k * c + t)) rv fwd acc =
     (if Suc t = c
      then zigzag_loop ps (int c) (int (Suc k * c)) (int (Suc k * c) + int c - 1) (\<not> fwd) (acc @ [p])
      else zigzag_loop ps (int c) (int (k * c + Suc t)) (if fwd then rv else rv - 1) fwd (acc @ [p]))"
proof -
  have a: "int (k * c + t) + 1 = int (k * c + Suc t)" by simp
  have b: "Suc t = c \<Longrightarrow> int (k * c + t) + 1 = int (Suc k * c)" by auto
  show ?thesis
    apply (subst zigzag_loop.simps)
    using assms row_end_mod [OF assms(2), of k] b
    apply (simp del: zigzag_loop.simps of_nat_add of_nat_mult of_nat_Suc add: a)
    apply (simp add: add.commute del: zigzag_loop.simps)
    done
qed

lemma forward_row:
  assumes "0 < c" "Suc k * c \<le> length ps"
  shows "t < c \<Longrightarrow>
    zigzag_loop ps (int c) (int (k * c + t)) rv True acc =
    zigzag_loop ps (int c) (int (Suc k * c)) (int (Suc k * c) + int c - 1) False
      (acc @ take (c - t) (drop (k * c + t) ps))"
proof (induction "c - t" arbitrary: t acc)
  case 0
  then show ?case by simp
next
  case (Suc n)
  have lt: "k * c + t < length ps"
    using Suc.prems assms(2) by simp
  have step: "zigzag_loop ps (int c) (int (k * c + t)) rv True acc =
     (if Suc t = c
      then zigzag_loop ps (int c) (int (Suc k * c)) (int (Suc k * c) + int c - 1) False
             (acc @ [ps ! (k * c + t)])
      else zigzag_loop ps (int c) (int (k * c + Suc t)) rv True (acc @ [ps ! (k * c + t)]))"
    using zigzag_step [OF assms(1) Suc.prems lt py_getitem_nat [OF lt], of True rv acc]
    by simp
  show ?case
  proof (cases "Suc t = c")
    case True
    then have "c - t = Suc 0" by simp
    with True step lt show ?thesis
      by (simp add: take_Suc_conv_app_nth del: zigzag_loop.simps)
  next
    case False
    with Suc.prems have t': "Suc t < c" by simp
    have n: "n = c - Suc t" using Suc.hyps(2) by simp
    have tk: "take (c - t) (drop (k * c + t) ps) =
        ps ! (k * c + t) # take (c - Suc t) (drop (k * c + Suc t) ps)"
      using lt t' by (simp add: Suc_diff_Suc [symmetric] Cons_nth_drop_Suc [symmetric])
    show ?thesis
      using step False Suc.hyps(1) [OF n t', of "acc @ [ps ! (k * c + t)]"]
      by (simp add: tk del: zigzag_loop.simps)
  qed
qed

lemma backward_row:
  assumes "0 < c" "Suc k * c \<le> length ps"
  shows "t < c \<Longrightarrow> rv = int (Suc k * c) - 1 - int t \<Longrightarrow>
    zigzag_loop ps (int c) (int (k * c + t)) rv False acc =
    zigzag_loop ps (int c) (int (Suc k * c)) (int (Suc k * c) + int c - 1) True
      (acc @ rev (take (c - t) (drop (k * c) ps)))"
proof (induction "c - t" arbitrary: t rv acc)
  case 0
  then show ?case by simp
next
  case (Suc n)
  let ?j = "k * c + (c - Suc t)"
  have lt: "k * c + t < length ps" and jlt: "?j < length ps"
    using Suc.prems(1) assms(2) by simp_all
  have rv: "rv = int ?j"
    using Suc.prems by simp
  have step: "zigzag_loop ps (int c) (int (k * c + t)) rv False acc =
     (if Suc t = c
      then zigzag_loop ps (int c) (int (Suc k * c)) (int (Suc k * c) + int c - 1) True
             (acc @ [ps ! ?j])
      else zigzag_loop ps (int c) (int (k * c + Suc t)) (rv - 1) False (acc @ [ps ! ?j]))"
    using zigzag_step [OF assms(1) Suc.prems(1) lt py_getitem_nat [OF jlt], of False rv acc]
    by (simp add: rv)
  have tk: "rev (take (c - t) (drop (k * c) ps)) =
      ps ! ?j # rev (take (c - Suc t) (drop (k * c) ps))"
  proof -
    have "c - t = Suc (c - Suc t)" using Suc.prems(1) by simp
    moreover have "c - Suc t < length (drop (k * c) ps)"
      using Suc.prems(1) assms(2) by simp
    ultimately show ?thesis
      using jlt by (simp add: take_Suc_conv_app_nth)
  qed
  show ?case
  proof (cases "Suc t = c")
    case True
    with step tk show ?thesis
      by (simp del: zigzag_loop.simps)
  next
    case False
    with Suc.prems have t': "Suc t < c" by simp
    have n: "n = c - Suc t" using Suc.hyps(2) by simp
    have rv': "rv - 1 = int (Suc k * c) - 1 - int (Suc t)"
      using Suc.prems(2) by simp
    show ?thesis
      using step False Suc.hyps(1) [OF n t' rv', of "acc @ [ps ! ?j]"]
      by (simp add: tk del: zigzag_loop.simps)
  qed
qed

lemma zigzag_rows:
  assumes "0 < c"
  shows "length ps = (k + r) * c \<Longrightarrow> (\<not> fwd \<Longrightarrow> rv = int (k * c) + int c - 1) \<Longrightarrow>
    zigzag_loop ps (int c) (int (k * c)) rv fwd acc =
      Inr (acc @ boustrophedon c fwd (drop (k * c) ps))"
proof (induction r arbitrary: k fwd rv acc)
  case 0
  then show ?case
    by (subst zigzag_loop.simps) simp
next
  case (Suc r)
  have le: "Suc k * c \<le> length ps" and len: "length ps = (Suc k + r) * c"
    using Suc.prems(1) by simp_all
  have ne: "drop (k * c) ps \<noteq> []"
    using le assms by simp
  have dr: "drop c (drop (k * c) ps) = drop (Suc k * c) ps"
    by (simp add: add.commute)
  have unf: "boustrophedon c fwd (drop (k * c) ps) =
      (if fwd then take c (drop (k * c) ps) else rev (take c (drop (k * c) ps)))
      @ boustrophedon c (\<not> fwd) (drop (Suc k * c) ps)"
    using ne assms by (subst boustrophedon.simps) (simp only: dr if_False, simp)
  show ?case
  proof (cases fwd)
    case True
    have "zigzag_loop ps (int c) (int (k * c)) rv True acc =
        zigzag_loop ps (int c) (int (Suc k * c)) (int (Suc k * c) + int c - 1) False
          (acc @ take c (drop (k * c) ps))"
      using forward_row [OF assms le, of 0 rv acc] assms by simp
    also have "\<dots> = Inr ((acc @ take c (drop (k * c) ps))
        @ boustrophedon c False (drop (Suc k * c) ps))"
      by (rule Suc.IH [OF len]) simp
    finally show ?thesis
      using True unf by simp
  next
    case False
    with Suc.prems(2) have rv: "rv = int (Suc k * c) - 1 - int 0" by simp
    have "zigzag_loop ps (int c) (int (k * c)) rv False acc =
        zigzag_loop ps (int c) (int (Suc k * c)) (int (Suc k * c) + int c - 1) True
          (acc @ rev (take c (drop (k * c) ps)))"
      using backward_row [OF assms le _ rv, of acc] assms by simp
    also have "\<dots> = Inr ((acc @ rev (take c (drop (k * c) ps)))
        @ boustrophedon c True (drop (Suc k * c) ps))"
      by (rule Suc.IH [OF len]) simp
    finally show ?thesis
      using False unf by simp
  qed
qed

lemma make_zigzag_rows:
  assumes "0 < num_cols" "int (length ps) = rows * num_cols"
  shows "make_zigzag ps num_cols = Inr (boustrophedon (nat num_cols) True ps)"
proof -
  define c where "c = nat num_cols"
  have c: "0 < c" "num_cols = int c" using assms(1) by (simp_all add: c_def)
  have "0 \<le> rows"
    using assms by (metis mult_less_0_iff not_less of_nat_0_le_iff)
  then have "length ps = (0 + nat rows) * c"
    using assms(2) c by (metis add_0 nat_int nat_mult_distrib)
  from zigzag_rows [OF c(1) this, of True "- 1" "[]"] show ?thesis
    by (simp add: make_zigzag_def c del: zigzag_loop.simps)
qed

text \<open>
  When the last row is incomplete and falls on a backward pass, the first read of that
  pass is beyond the end of the list.
\<close>

lemma make_zigzag_ragged: "make_zigzag [p0, p1, p2, p3] 3 = Inl IndexError"
  by (simp add: make_zigzag_def py_getitem_def py_index_def)

text \<open>
  C7: on a flat sequence of whole rows of \<open>num_cols\<close> elements, \<^verbatim>\<open>make_zigzag\<close> returns
  the rows in order, the first forwards, the second backwards and so on; in particular
  the nine points \<open>p0 .. p8\<close> with rows of three come back as
  \<open>p0, p1, p2, p5, p4, p3, p6, p7, p8\<close>.
\<close>

theorem make_zigzag_boustrophedon:
  "(0 < num_cols \<longrightarrow> int (length (ps :: 'a list)) = rows * num_cols \<longrightarrow>
      make_zigzag ps num_cols = Inr (boustrophedon (nat num_cols) True ps))
   \<and> make_zigzag [p0 :: 'a, p1, p2, p3, p4, p5, p6, p7, p8] 3 =
        Inr [p0, p1, p2, p5, p4, p3, p6, p7, p8]"
  using make_zigzag_rows [of num_cols ps rows]
  by (simp add: make_zigzag_def py_getitem_def py_index_def)

text \<open>Two rows of two: the second row is reversed.\<close>

theorem make_zigzag_boustrophedon_witness:
  "0 < (2::int) \<and> int (length [10, 11, 12, 13 :: nat]) = 2 * 2
   \<and> make_zigzag [10, 11, 12, 13 :: nat] 2 = Inr [10, 11, 13, 12]"
  using make_zigzag_boustrophedon [of 2 "[10, 11, 12, 13 :: nat]" 2 0 1 2 3 4 5 6 7 8]
  by (simp add: numeral_2_eq_2)

end
